theory Spec2Isabelle
  imports Main
begin

section \<open>Wall-clock time (time.go)\<close>

subsection \<open>The standard library's time.Time and time.Duration, as far as the package uses them\<close>

text \<open>
  A \<^verbatim>\<open>time.Duration\<close> is a count of nanoseconds. A \<^verbatim>\<open>time.Time\<close> in the UTC
  location is modelled by the number of nanoseconds since the zero value of the type
  (0001-01-01 00:00:00 UTC), which is a midnight, so that the hour and the minute of the
  wall clock are read from it by division. Go's 64-bit ranges are not modelled: integers
  are unbounded.
\<close>

type_synonym Duration = int
type_synonym go_time = int

definition time_Minute :: Duration where
  "time_Minute = 60000000000"

definition time_Hour :: Duration where
  "time_Hour = 60 * time_Minute"

definition go_Hour :: "go_time \<Rightarrow> int" where
  "go_Hour u = (u div time_Hour) mod 24"

definition go_Minute :: "go_time \<Rightarrow> int" where
  "go_Minute u = (u div time_Minute) mod 60"

definition go_Add :: "go_time \<Rightarrow> Duration \<Rightarrow> go_time" where
  "go_Add u d = u + d"

text \<open>
  \<^verbatim>\<open>time.Date(0, 0, 0, hour, minute, 0, 0, time.UTC)\<close>: month 0 and day 0 normalise to
  30 November of the year before year 0, which is 398 days before the zero time
  (1 + 31 days to 1 January of year 0, a leap year of 366 days); hours and minutes out of
  range overflow into the neighbouring fields, that is, they are added linearly.
\<close>

definition go_Date000 :: "int \<Rightarrow> int \<Rightarrow> go_time" where
  "go_Date000 hour minute = (- (398 * 1440) + hour * 60 + minute) * time_Minute"

text \<open>
  \<^verbatim>\<open>int(d.Minutes())\<close>: the duration in minutes as a float64, truncated toward zero.
  The model takes the exact quotient (the float64 is exact on whole minutes).
\<close>

definition Minutes_int :: "Duration \<Rightarrow> int" where
  "Minutes_int d = (if d < 0 then - ((- d) div time_Minute) else d div time_Minute)"

subsection \<open>The Time type and its constructors\<close>

definition minutesInDay :: int where
  "minutesInDay = 60 * 24"

record Time =
  stamp :: go_time
  isSet :: bool

definition EmptyTime :: Time where
  "EmptyTime = \<lparr>stamp = 0, isSet = False\<rparr>"

definition NewTime :: "int \<Rightarrow> int \<Rightarrow> Time" where
  "NewTime hour minute = \<lparr>stamp = go_Date000 hour minute, isSet = True\<rparr>"

definition Hour :: "Time \<Rightarrow> int" where
  "Hour t = go_Hour (stamp t)"

definition Minute :: "Time \<Rightarrow> int" where
  "Minute t = go_Minute (stamp t)"

definition NewFromTime :: "go_time \<Rightarrow> Time" where
  "NewFromTime u = \<lparr>stamp = go_Date000 (go_Hour u) (go_Minute u), isSet = True\<rparr>"

subsection \<open>Ranges\<close>

definition Range :: "Time \<Rightarrow> Time \<Rightarrow> Duration" where
  "Range low high =
     time_Hour * (Hour high - Hour low) + time_Minute * (Minute high - Minute low)"

definition RangeUp :: "Time \<Rightarrow> Time \<Rightarrow> Duration" where
  "RangeUp low high =
     (let hours = (if Hour high < Hour low then 24 - Hour low + Hour high
                   else Hour high - Hour low);
          (hours, minutes) =
            (if Minute high < Minute low
             then (let hours = hours - 1;
                       hours = (if hours < 0 then 23 else hours)
                   in (hours, 60 - Minute low + Minute high))
             else (hours, Minute high - Minute low))
      in time_Hour * hours + time_Minute * minutes)"

subsection \<open>Minutes from the day's begin and till its end\<close>

definition MinutesFromDayBegin :: "Time \<Rightarrow> Time \<Rightarrow> int" where
  "MinutesFromDayBegin t dayStartTime =
     (let hours = (if Hour t < Hour dayStartTime then 24 - Hour dayStartTime - Hour t
                   else Hour t - Hour dayStartTime)
      in hours * 60 + Minute t)"

definition MinutesTillDayEnd :: "Time \<Rightarrow> Time \<Rightarrow> int" where
  "MinutesTillDayEnd t dayStartTime = minutesInDay - MinutesFromDayBegin t dayStartTime"

subsection \<open>Adding and subtracting a duration\<close>

text \<open>The loop \<^verbatim>\<open>for minutes > minutesInDay { minutes -= minutesInDay }\<close>.\<close>

function (sequential) drop_days :: "int \<Rightarrow> int" where
  "drop_days minutes =
     (if minutes > minutesInDay then drop_days (minutes - minutesInDay) else minutes)"
  by pat_completeness auto
termination
  by (relation "measure nat") (auto simp: minutesInDay_def)

declare drop_days.simps [simp del]

definition addTime :: "Time \<Rightarrow> Duration \<Rightarrow> int \<Rightarrow> Time" where
  "addTime t what howMuch = \<lparr>stamp = go_Add (stamp t) (what * howMuch), isSet = True\<rparr>"

definition subTime :: "Time \<Rightarrow> Duration \<Rightarrow> int \<Rightarrow> Time" where
  "subTime t what howMuch = addTime t what (- 1 * howMuch)"

definition AddTime :: "Time \<Rightarrow> Duration \<Rightarrow> Time" where
  "AddTime t howMuch =
     (let minutes = drop_days (Minutes_int howMuch);
          tillEnd = MinutesTillDayEnd t EmptyTime
      in if minutes < tillEnd then addTime t time_Minute minutes
         else (let afterDayStart = minutes - tillEnd
               in addTime (NewTime 0 0) time_Minute afterDayStart))"

definition SubTime :: "Time \<Rightarrow> Duration \<Rightarrow> Time" where
  "SubTime t howMuch =
     (let minutes = drop_days (Minutes_int howMuch);
          fromBegin = MinutesFromDayBegin t EmptyTime
      in if minutes < fromBegin then subTime t time_Minute minutes
         else (let beforeDayStart = minutes - fromBegin - 1
               in subTime (NewTime 23 59) time_Minute beforeDayStart))"

subsection \<open>Comparisons\<close>

definition EqualTime :: "Time \<Rightarrow> Time \<Rightarrow> bool" where
  "EqualTime t other \<longleftrightarrow> Hour t = Hour other \<and> Minute t = Minute other"

definition IsBefore :: "Time \<Rightarrow> Time \<Rightarrow> bool" where
  "IsBefore t other =
     (if Hour t > Hour other then False
      else if Hour t = Hour other \<and> Minute t > Minute other then False
      else True)"

definition IsArgBefore :: "Time \<Rightarrow> Time \<Rightarrow> bool" where
  "IsArgBefore t other =
     (if Hour t < Hour other then False
      else if Hour t = Hour other \<and> Minute t < Minute other then False
      else True)"

definition IsAfter :: "Time \<Rightarrow> Time \<Rightarrow> bool" where
  "IsAfter t other = IsArgBefore t other"

subsection \<open>The smart difference\<close>

definition SmartDiff :: "Time \<Rightarrow> Time \<Rightarrow> Duration" where
  "SmartDiff start end =
     (let startMinutes = MinutesFromDayBegin start EmptyTime;
          endMinutes = MinutesFromDayBegin end EmptyTime
      in if endMinutes \<ge> startMinutes then time_Minute * (endMinutes - startMinutes)
         else time_Minute * (endMinutes + MinutesTillDayEnd start EmptyTime))"

subsection \<open>Rounding to five minutes\<close>

text \<open>The loop \<^verbatim>\<open>for i := 1; i <= 6; i++\<close> of RoundDownToFives, returning the final m.\<close>

function (sequential) RoundDownToFives_loop :: "int \<Rightarrow> int \<Rightarrow> int" where
  "RoundDownToFives_loop m i =
     (if i \<le> 6
      then (let base = i * 10
            in if m < base
               then (if m \<le> base - 5 then base - 10 else base - 5)
               else RoundDownToFives_loop m (i + 1))
      else m)"
  by pat_completeness auto
termination
  by (relation "measure (\<lambda>(m, i). nat (7 - i))") auto

declare RoundDownToFives_loop.simps [simp del]

definition RoundDownToFives :: "Time \<Rightarrow> Time" where
  "RoundDownToFives t = NewTime (Hour t) (RoundDownToFives_loop (Minute t) 1)"

definition RoundUpToFives :: "Time \<Rightarrow> Time" where
  "RoundUpToFives t = NewFromTime (go_Add (stamp (RoundDownToFives t)) (5 * time_Minute))"

subsection \<open>Sorting priority\<close>

datatype SortingPriority = LongAgoPriority | BeforePriority | AfterPriority | NotSoonPriority

definition GetTimeSortingPriority :: "Time \<Rightarrow> Time \<Rightarrow> Time \<Rightarrow> SortingPriority" where
  "GetTimeSortingPriority toCheck now dayStart =
     (if IsArgBefore dayStart now
      then (if IsBefore toCheck dayStart
            then (if IsBefore toCheck now then BeforePriority else AfterPriority)
            else LongAgoPriority)
      else if IsAfter toCheck dayStart
      then (if IsBefore toCheck now then BeforePriority else AfterPriority)
      else NotSoonPriority)"

text \<open>The minute of the day, 0 to 1439, that a Time shows.\<close>

definition minute_of_day :: "Time \<Rightarrow> int" where
  "minute_of_day t = Hour t * 60 + Minute t"

section \<open>Strings and numbers of the standard library\<close>

text \<open>
  A Go string is a sequence of bytes, here a \<^typ>\<open>string\<close> (a list of 8-bit characters);
  \<^verbatim>\<open>len\<close> is \<^const>\<open>length\<close> and \<^verbatim>\<open>s[i:j]\<close> is \<open>take (j - i) (drop i s)\<close>.
\<close>

text \<open>
  \<^verbatim>\<open>strings.Split(s, sep)\<close> for a separator of one byte (all separators of the package are):
  the pieces between the occurrences of sep, one more than there are occurrences.
\<close>

fun Split :: "string \<Rightarrow> char \<Rightarrow> string list" where
  "Split [] sep = [[]]"
| "Split (c # cs) sep =
     (if c = sep then [] # Split cs sep
      else (case Split cs sep of [] \<Rightarrow> [[c]] | x # xs \<Rightarrow> (c # x) # xs))"

text \<open>\<^verbatim>\<open>strings.Replace(s, old, new, 1)\<close>: the first occurrence of old replaced by new.\<close>

fun Replace1 :: "string \<Rightarrow> string \<Rightarrow> string \<Rightarrow> string" where
  "Replace1 [] old new = (if old = [] then new else [])"
| "Replace1 (c # cs) old new =
     (if take (length old) (c # cs) = old then new @ drop (length old) (c # cs)
      else c # Replace1 cs old new)"

text \<open>
  \<^verbatim>\<open>strings.TrimSpace\<close> removes the white space runes (\<^verbatim>\<open>unicode.IsSpace\<close>) at both ends:
  the six ASCII ones, and in UTF-8 U+0085, U+00A0, U+1680, U+2000 to U+200A, U+2028,
  U+2029, U+202F, U+205F and U+3000.
\<close>

definition asciiSpace :: "char \<Rightarrow> bool" where
  "asciiSpace c \<longleftrightarrow> (of_char c :: nat) \<in> {9, 10, 11, 12, 13, 32}"

definition wide_spaces :: "string list" where
  "wide_spaces = map (map char_of)
     ([[0xC2, 0x85], [0xC2, 0xA0], [0xE1, 0x9A, 0x80]] @
      map (\<lambda>b. [0xE2, 0x80, b]) [0x80 ..< 0x8B] @
      [[0xE2, 0x80, 0xA8], [0xE2, 0x80, 0xA9], [0xE2, 0x80, 0xAF], [0xE2, 0x81, 0x9F],
       [0xE3, 0x80, 0x80 :: nat]])"

text \<open>The number of bytes of the white space rune a string begins or ends with, 0 if none.\<close>

definition space_prefix :: "string \<Rightarrow> nat" where
  "space_prefix s =
     (case s of [] \<Rightarrow> 0
      | c # _ \<Rightarrow> if asciiSpace c then 1
                 else (case find (\<lambda>w. take (length w) s = w) wide_spaces of
                         None \<Rightarrow> 0 | Some w \<Rightarrow> length w))"

definition space_suffix :: "string \<Rightarrow> nat" where
  "space_suffix s =
     (if s = [] then 0
      else if asciiSpace (last s) then 1
      else (case find (\<lambda>w. drop (length s - length w) s = w) wide_spaces of
              None \<Rightarrow> 0 | Some w \<Rightarrow> length w))"

function TrimLeft :: "string \<Rightarrow> string" where
  "TrimLeft s = (if space_prefix s = 0 then s else TrimLeft (drop (space_prefix s) s))"
  by pat_completeness auto
termination
  by (relation "measure length") (auto simp: space_prefix_def split: list.splits)

function TrimRight :: "string \<Rightarrow> string" where
  "TrimRight s =
     (if space_suffix s = 0 then s else TrimRight (take (length s - space_suffix s) s))"
  by pat_completeness auto
termination
  by (relation "measure length") (auto simp: space_suffix_def split: if_splits)

declare TrimLeft.simps [simp del] TrimRight.simps [simp del]

definition TrimSpace :: "string \<Rightarrow> string" where
  "TrimSpace s = TrimRight (TrimLeft s)"

text \<open>
  \<^verbatim>\<open>strconv.Atoi\<close>: an optional sign, then one or more decimal digits and nothing else;
  the value must fit a 64-bit int. \<open>None\<close> is any error.
\<close>

definition is_digit :: "char \<Rightarrow> bool" where
  "is_digit c \<longleftrightarrow> 48 \<le> (of_char c :: nat) \<and> (of_char c :: nat) \<le> 57"

definition digits_value :: "string \<Rightarrow> int" where
  "digits_value ds = foldl (\<lambda>n c. n * 10 + (of_char c - 48)) 0 ds"

definition Atoi :: "string \<Rightarrow> int option" where
  "Atoi s =
     (case s of [] \<Rightarrow> None
      | c # cs \<Rightarrow>
          (let neg = (c = CHR ''-'');
               ds = (if c = CHR ''-'' \<or> c = CHR ''+'' then cs else s)
           in if ds = [] \<or> \<not> list_all is_digit ds then None
              else (let n = digits_value ds
                    in if neg then (if n > 2 ^ 63 then None else Some (- n))
                       else (if n > 2 ^ 63 - 1 then None else Some n))))"

text \<open>The verb \<^verbatim>\<open>%d\<close> of \<^verbatim>\<open>fmt.Sprintf\<close>: the decimal digits, after a minus sign if negative.\<close>

function decimal :: "nat \<Rightarrow> string" where
  "decimal n = (if n < 10 then [char_of (48 + n)] else decimal (n div 10) @ [char_of (48 + n mod 10)])"
  by pat_completeness auto
termination
  by (relation "measure id") auto

declare decimal.simps [simp del]

definition Sprintf_d :: "int \<Rightarrow> string" where
  "Sprintf_d n = (if n < 0 then CHR ''-'' # decimal (nat (- n)) else decimal (nat n))"

section \<open>Errors\<close>

text \<open>
  The errors the package returns, one constructor for each message. A run-time panic
  (an index out of range) is the value \<open>PanicIndexOutOfRange\<close>.
\<close>

datatype error =
    TimeIsEmpty
  | ParseHourError string
  | InvalidHourError int
  | ParseMinuteError string
  | InvalidMinuteError int
  | InvalidTimeError string
  | InputEmpty
  | InvalidInput string
  | InvalidHours string string
  | HoursOverThreshold int string
  | InvalidMinutes string string
  | MinutesNotAllowed int
  | InvalidHourForMinute char int int
  | InvalidTimezone string
  | PanicIndexOutOfRange

section \<open>Parsing a time of day (time.go)\<close>

fun prepareNumber :: "string \<Rightarrow> bool \<Rightarrow> string" where
  "prepareNumber [] isDecimal = []"
| "prepareNumber (c # cs) isDecimal =
     (if is_digit c then c # prepareNumber cs isDecimal
      else if isDecimal \<and> c = CHR ''.'' then c # prepareNumber cs isDecimal
      else [])"

definition seps :: "char list" where
  "seps = [CHR '' '', CHR '':'', CHR ''-'', CHR ''_'', CHR '','', CHR ''.'']"

text \<open>
  The body of the loop of ParseTime for one separator: \<open>None\<close> when it goes on to the next
  separator (\<^verbatim>\<open>continue\<close>), \<open>Some\<close> of what it returns otherwise.
\<close>

definition ParseTime_sep :: "string \<Rightarrow> char \<Rightarrow> (error + Time) option" where
  "ParseTime_sep s sep =
     (let splitted = Split s sep
      in if length splitted \<noteq> 2 \<and> length s \<noteq> 4 then None
         else
          (let splitted = (if length splitted \<noteq> 2 then [take 2 s, take 2 (drop 2 s)]
                           else splitted);
               h = prepareNumber (splitted ! 0) False
           in case Atoi h of
                None \<Rightarrow> Some (Inl (ParseHourError h))
              | Some hour \<Rightarrow>
                  if hour < 0 \<or> hour > 23 then Some (Inl (InvalidHourError hour))
                  else
                   (let m = prepareNumber (splitted ! 1) False
                    in case Atoi m of
                         None \<Rightarrow> Some (Inl (ParseMinuteError m))
                       | Some minute \<Rightarrow>
                           if minute < 0 \<or> minute > 59
                           then Some (Inl (InvalidMinuteError minute))
                           else Some (Inr (NewTime hour minute)))))"

fun ParseTime_loop :: "string \<Rightarrow> char list \<Rightarrow> error + Time" where
  "ParseTime_loop s [] = Inl (InvalidTimeError s)"
| "ParseTime_loop s (sep # rest) =
     (case ParseTime_sep s sep of None \<Rightarrow> ParseTime_loop s rest | Some r \<Rightarrow> r)"

definition ParseTime :: "string \<Rightarrow> error + Time" where
  "ParseTime s = (if s = [] then Inl TimeIsEmpty else ParseTime_loop s seps)"

section \<open>Time zones (the Timezone type and ParseUTCOffset)\<close>

text \<open>
  A \<^verbatim>\<open>*time.Location\<close> is either a fixed zone, with its name and its offset in seconds
  east of UTC, or a zone of the zone database, with its name, its first offset and its
  transitions: the instants from which another offset holds, in ascending order.
  \<^verbatim>\<open>time.UTC\<close> is the fixed zone named UTC of offset 0. A \<^verbatim>\<open>time.Time\<close> with its location
  is an instant paired with the location.
\<close>

datatype Location = FixedZone string int | DatabaseZone string int "(int \<times> int) list"

definition UTC :: Location where
  "UTC = FixedZone ''UTC'' 0"

fun Location_String :: "Location \<Rightarrow> string" where
  "Location_String (FixedZone name off) = name"
| "Location_String (DatabaseZone name off tx) = name"

type_synonym zoned_time = "int \<times> Location"

text \<open>The second result of \<^verbatim>\<open>t.Zone()\<close>: the offset in effect at the time t.\<close>

fun Zone_offset :: "zoned_time \<Rightarrow> int" where
  "Zone_offset (u, FixedZone name off) = off"
| "Zone_offset (u, DatabaseZone name off tx) =
     foldl (\<lambda>cur (when, off'). if when \<le> u then off' else cur) off tx"

text \<open>
  \<^verbatim>\<open>time.LoadLocation\<close>: the names \<^verbatim>\<open>""\<close> and \<^verbatim>\<open>"UTC"\<close> give UTC, every other name is looked
  up in the zone database, a parameter of the model; \<open>None\<close> is its error.
\<close>

definition LoadLocation :: "(string \<Rightarrow> Location option) \<Rightarrow> string \<Rightarrow> Location option" where
  "LoadLocation db name = (if name = [] \<or> name = ''UTC'' then Some UTC else db name)"

record Timezone =
  loc :: Location
  offset :: int

text \<open>
  NewTimezoneFromTime. After the sign is taken off, the offset is not negative, so that
  Go's truncating \<^verbatim>\<open>/\<close> and \<^verbatim>\<open>%\<close> are \<open>div\<close> and \<open>mod\<close>.
\<close>

definition NewTimezoneFromTime :: "zoned_time \<Rightarrow> Timezone" where
  "NewTimezoneFromTime t =
     (let off0 = Zone_offset t;
          sign = (if off0 < 0 then ''-'' else ''+'');
          off = (if off0 < 0 then - off0 else off0);
          hours = off div 3600;
          minutes = off mod 3600 div 60
      in if hours = 0 then \<lparr>loc = FixedZone ''UTC'' off, offset = off0\<rparr>
         else if minutes = 0
         then \<lparr>loc = FixedZone (''UTC'' @ sign @ Sprintf_d hours) off, offset = off0\<rparr>
         else \<lparr>loc = FixedZone (''UTC'' @ sign @ Sprintf_d hours @ '':'' @ Sprintf_d minutes) off,
               offset = off0\<rparr>)"

text \<open>NewTimezone reads the clock: \<open>now\<close> is the instant that \<^verbatim>\<open>time.Now()\<close> returns.\<close>

definition NewTimezone :: "int \<Rightarrow> Location option \<Rightarrow> Timezone" where
  "NewTimezone now l =
     (let l = (case l of None \<Rightarrow> UTC | Some x \<Rightarrow> x) in NewTimezoneFromTime (now, l))"

definition Loc :: "Timezone \<Rightarrow> Location" where
  "Loc i = loc i"

definition Offset :: "Timezone \<Rightarrow> int" where
  "Offset i = offset i"

definition Timezone_String :: "Timezone \<Rightarrow> string" where
  "Timezone_String i = Location_String (loc i)"

fun isEqual :: "int \<Rightarrow> int list \<Rightarrow> bool" where
  "isEqual n [] = False"
| "isEqual n (target # ns) = (if n = target then True else isEqual n ns)"

text \<open>
  The loop of ParseUTCOffset over the separators space and colon, with the hours and
  minutes strings found so far.
\<close>

fun ParseUTCOffset_split ::
  "string \<Rightarrow> char list \<Rightarrow> string \<times> string \<Rightarrow> error + string \<times> string" where
  "ParseUTCOffset_split input [] hm = Inr hm"
| "ParseUTCOffset_split input (sep # rest) hm =
     (let spl = Split input sep
      in if length spl = 2 then Inr (spl ! 0, spl ! 1)
         else if length spl > 2 then Inl (InvalidInput input)
         else ParseUTCOffset_split input rest (spl ! 0, ''0''))"

text \<open>ParseUTCOffset from the loop on, with the sign found and the input after it.\<close>

definition ParseUTCOffset_signed :: "char \<Rightarrow> string \<Rightarrow> error + Location" where
  "ParseUTCOffset_signed sign input =
     (case ParseUTCOffset_split input [CHR '' '', CHR '':''] ([], []) of
        Inl e \<Rightarrow> Inl e
      | Inr (hours, minutes) \<Rightarrow>
         (case Atoi hours of
            None \<Rightarrow> Inl (InvalidHours input hours)
          | Some hoursInt \<Rightarrow>
             (let hoursThreshold = (if sign = CHR ''-'' then 12 else 14)
              in if hoursInt > hoursThreshold then Inl (HoursOverThreshold hoursThreshold hours)
                 else
                  (case Atoi minutes of
                     None \<Rightarrow> Inl (InvalidMinutes input minutes)
                   | Some minutesInt \<Rightarrow>
                      if \<not> isEqual minutesInt [0, 30, 45] then Inl (MinutesNotAllowed minutesInt)
                      else if minutesInt = 30 \<and> sign = CHR ''+'' \<and>
                              \<not> isEqual hoursInt [3, 4, 5, 6, 9, 10]
                      then Inl (InvalidHourForMinute sign hoursInt minutesInt)
                      else if minutesInt = 30 \<and> sign = CHR ''-'' \<and> \<not> isEqual hoursInt [3, 9]
                      then Inl (InvalidHourForMinute sign hoursInt minutesInt)
                      else if minutesInt = 45 \<and> sign = CHR ''-''
                      then Inl (InvalidHourForMinute sign hoursInt minutesInt)
                      else if minutesInt = 45 \<and> sign = CHR ''+'' \<and> \<not> isEqual hoursInt [5, 8, 12]
                      then Inl (InvalidHourForMinute sign hoursInt minutesInt)
                      else
                       (let signInt = (if sign = CHR ''-'' then - 1 else 1)
                        in Inr (FixedZone
                                 (''UTC'' @ [sign] @ hours @
                                    (if minutesInt > 0 then '':'' @ minutes else []))
                                 (signInt * hoursInt * 60 * 60 + signInt * minutesInt * 60)))))))"

text \<open>
  ParseUTCOffset. The read of \<^verbatim>\<open>input[0]\<close> panics when nothing is left of the input
  after the removal of UTC and of the white space around.
\<close>

definition ParseUTCOffset :: "string \<Rightarrow> error + Location" where
  "ParseUTCOffset input =
     (if length input = 0 then Inl InputEmpty
      else
       (let input = TrimSpace (Replace1 input ''UTC'' [])
        in case input of
             [] \<Rightarrow> Inl PanicIndexOutOfRange
           | c # rest \<Rightarrow>
               if c = CHR ''+'' \<or> c = CHR ''-''
               then (if length input = 1 then Inl (InvalidInput input)
                     else ParseUTCOffset_signed c rest)
               else ParseUTCOffset_signed (CHR ''+'') input))"

text \<open>ParseTimezone, over the zone database and the instant that NewTimezone reads.\<close>

definition ParseTimezone ::
  "(string \<Rightarrow> Location option) \<Rightarrow> int \<Rightarrow> string \<Rightarrow> error + Timezone" where
  "ParseTimezone db now s =
     (if length s < 3 then Inl (InvalidTimezone s)
      else (case LoadLocation db s of
              Some l \<Rightarrow> Inr (NewTimezone now (Some l))
            | None \<Rightarrow>
                (case ParseUTCOffset s of
                   Inl e \<Rightarrow> Inl e
                 | Inr l \<Rightarrow> Inr (NewTimezone now (Some l)))))"

text \<open>A zone database without any zone: every lookup fails.\<close>

definition no_zones :: "string \<Rightarrow> Location option" where
  "no_zones name = None"

section \<open>The real-world offsets of the specification\<close>

text \<open>
  The combinations of sign, hours and minutes that the specification counts as real-world
  UTC offsets (its rules 3 to 6), and the offsets in seconds they stand for. The sign is
  1 or - 1.
\<close>

definition real_world_combination :: "int \<Rightarrow> int \<Rightarrow> int \<Rightarrow> bool" where
  "real_world_combination sg h m \<longleftrightarrow>
     ((sg = 1 \<and> 0 \<le> h \<and> h \<le> 14) \<or> (sg = - 1 \<and> 0 \<le> h \<and> h \<le> 12)) \<and>
     (m = 0 \<or>
      (m = 30 \<and> ((sg = 1 \<and> h \<in> {3, 4, 5, 6, 9, 10}) \<or> (sg = - 1 \<and> h \<in> {3, 9}))) \<or>
      (m = 45 \<and> sg = 1 \<and> h \<in> {5, 8, 12}))"

definition real_world_offsets :: "int list" where
  "real_world_offsets =
     [sg * (h * 3600 + m * 60). sg \<leftarrow> [1, - 1], h \<leftarrow> [0 .. 14], m \<leftarrow> [0, 30, 45],
        real_world_combination sg h m]"

section \<open>The display string read back\<close>

text \<open>
  The reading of a canonical display string as the specification gives it (UTC, UTC\<plusminus>H or
  UTC\<plusminus>H:MM): UTC is 0 seconds, and UTC, a sign, the hours H and, after a colon, the
  minutes M are sign * (H * 3600 + M * 60) seconds. \<open>None\<close>: not of this form.
\<close>

definition read_decimal :: "string \<Rightarrow> int option" where
  "read_decimal ds = (if ds \<noteq> [] \<and> list_all is_digit ds then Some (digits_value ds) else None)"

definition display_offset :: "string \<Rightarrow> int option" where
  "display_offset s =
     (if s = ''UTC'' then Some 0
      else
       (case s of
          u # t # c # sg # rest \<Rightarrow>
            if [u, t, c] = ''UTC'' \<and> (sg = CHR ''+'' \<or> sg = CHR ''-'')
            then
             (let k = (if sg = CHR ''-'' then - 1 else 1)
              in case Split rest CHR '':'' of
                   [h] \<Rightarrow>
                     (case read_decimal h of None \<Rightarrow> None | Some H \<Rightarrow> Some (k * (H * 3600)))
                 | [h, m] \<Rightarrow>
                     (case read_decimal h of
                        None \<Rightarrow> None
                      | Some H \<Rightarrow>
                          (case read_decimal m of
                             None \<Rightarrow> None
                           | Some M \<Rightarrow> Some (k * (H * 3600 + M * 60))))
                 | _ \<Rightarrow> None)
            else None
        | _ \<Rightarrow> None))"

section \<open>Basic facts about the clock fields\<close>

lemma Hour_range: "0 \<le> Hour t \<and> Hour t \<le> 23"
  by (simp add: Hour_def go_Hour_def)

lemma Minute_range: "0 \<le> Minute t \<and> Minute t \<le> 59"
  by (simp add: Minute_def go_Minute_def)

lemma minute_of_day_stamp: "minute_of_day t = (stamp t div time_Minute) mod 1440"
proof -
  have h: "stamp t div time_Hour = (stamp t div time_Minute) div 60"
    by (simp add: time_Hour_def time_Minute_def div_mult2_eq)
  show ?thesis
    unfolding minute_of_day_def Hour_def Minute_def go_Hour_def go_Minute_def h
    using zmod_zmult2_eq [of 24 "stamp t div time_Minute" 60] by simp
qed

lemma minute_of_day_range: "0 \<le> minute_of_day t \<and> minute_of_day t \<le> 1439"
  by (simp add: minute_of_day_stamp)

lemma Hour_minute_of_day: "Hour t = minute_of_day t div 60"
  using Minute_range [of t] by (simp add: minute_of_day_def)

lemma Minute_minute_of_day: "Minute t = minute_of_day t mod 60"
  using Minute_range [of t] by (simp add: minute_of_day_def)

lemma minute_of_day_NewTime: "minute_of_day (NewTime h m) = (h * 60 + m) mod 1440"
proof -
  have "60 * h - 573120 + m = (h * 60 + m) + (- 398) * 1440" by simp
  then have "(60 * h - 573120 + m) mod 1440 = (h * 60 + m) mod 1440"
    by (metis mod_mult_self1 mult.commute)
  then show ?thesis
    by (simp add: minute_of_day_stamp NewTime_def go_Date000_def time_Minute_def)
qed

lemma minute_of_day_addTime:
  "minute_of_day (addTime t time_Minute n) = (minute_of_day t + n) mod 1440"
  by (simp add: minute_of_day_stamp addTime_def go_Add_def time_Minute_def mod_simps add.commute)

lemma Hour_EmptyTime: "Hour EmptyTime = 0"
  by (simp add: Hour_def EmptyTime_def go_Hour_def)

lemma MinutesFromDayBegin_Empty: "MinutesFromDayBegin t EmptyTime = minute_of_day t"
  using Hour_range [of t]
  by (simp add: MinutesFromDayBegin_def minute_of_day_def Hour_EmptyTime)

lemma drop_days_nonneg: "0 \<le> n \<Longrightarrow> 0 \<le> drop_days n \<and> drop_days n \<le> 1440 \<and> drop_days n mod 1440 = n mod 1440"
proof (induction n rule: drop_days.induct)
  case (1 minutes)
  show ?case
  proof (cases "minutes > minutesInDay")
    case True
    then have "0 \<le> minutes - minutesInDay" by simp
    from "1.IH" [OF True this] True show ?thesis
      by (subst (1 2 3) drop_days.simps) (simp add: minutesInDay_def mod_simps)
  next
    case False
    with "1.prems" show ?thesis by (subst (1 2 3) drop_days.simps) (simp add: minutesInDay_def)
  qed
qed

lemma Hour_NewTime: "0 \<le> h \<Longrightarrow> h \<le> 23 \<Longrightarrow> 0 \<le> m \<Longrightarrow> m \<le> 59 \<Longrightarrow> Hour (NewTime h m) = h"
  by (simp add: Hour_minute_of_day minute_of_day_NewTime)

lemma Minute_NewTime: "0 \<le> h \<Longrightarrow> h \<le> 23 \<Longrightarrow> 0 \<le> m \<Longrightarrow> m \<le> 59 \<Longrightarrow> Minute (NewTime h m) = m"
  by (simp add: Minute_minute_of_day minute_of_day_NewTime)

lemma IsBefore_iff: "IsBefore t other \<longleftrightarrow> minute_of_day t \<le> minute_of_day other"
  using Minute_range [of t] Minute_range [of other]
  by (auto simp: IsBefore_def minute_of_day_def)

lemma IsArgBefore_iff: "IsArgBefore t other \<longleftrightarrow> minute_of_day other \<le> minute_of_day t"
  using Minute_range [of t] Minute_range [of other]
  by (auto simp: IsArgBefore_def minute_of_day_def)

lemma EqualTime_iff: "EqualTime t other \<longleftrightarrow> minute_of_day t = minute_of_day other"
proof
  assume "EqualTime t other"
  then show "minute_of_day t = minute_of_day other"
    by (simp add: EqualTime_def minute_of_day_def)
next
  assume "minute_of_day t = minute_of_day other"
  then show "EqualTime t other"
    unfolding EqualTime_def Hour_minute_of_day Minute_minute_of_day by simp
qed

lemma mod_day:
  fixes d :: int
  assumes "- 1440 < d" and "d < 1440"
  shows "d mod 1440 = (if d < 0 then d + 1440 else d)"
proof (cases "d < 0")
  case True
  with assms have "(d + 1440) mod 1440 = d + 1440"
    by (intro mod_pos_pos_trivial) auto
  with True show ?thesis by simp
next
  case False
  with assms show ?thesis by simp
qed

lemma SmartDiff_eq: "SmartDiff low high = time_Minute * ((minute_of_day high - minute_of_day low) mod 1440)"
proof -
  have b: "- 1440 < minute_of_day high - minute_of_day low"
          "minute_of_day high - minute_of_day low < 1440"
    using minute_of_day_range [of low] minute_of_day_range [of high] by auto
  show ?thesis
    unfolding mod_day [OF b]
    by (auto simp: SmartDiff_def MinutesFromDayBegin_Empty MinutesTillDayEnd_def minutesInDay_def Let_def)
qed

lemma RangeUp_eq: "RangeUp low high = time_Minute * ((minute_of_day high - minute_of_day low) mod 1440)"
proof -
  have r: "0 \<le> Hour low" "Hour low \<le> 23" "0 \<le> Hour high" "Hour high \<le> 23"
     "0 \<le> Minute low" "Minute low \<le> 59" "0 \<le> Minute high" "Minute high \<le> 59"
    using Hour_range Minute_range by auto
  have b: "- 1440 < minute_of_day high - minute_of_day low"
          "minute_of_day high - minute_of_day low < 1440"
    using minute_of_day_range [of low] minute_of_day_range [of high] by auto
  define hours where "hours = (if Hour high < Hour low then 24 - Hour low + Hour high
                   else Hour high - Hour low)"
  define hours' where "hours' = (if Minute high < Minute low then (if hours - 1 < 0 then 23 else hours - 1) else hours)"
  define minutes where "minutes = (if Minute high < Minute low then 60 - Minute low + Minute high else Minute high - Minute low)"
  have 1: "RangeUp low high = time_Hour * hours' + time_Minute * minutes"
    by (simp add: RangeUp_def Let_def hours_def hours'_def minutes_def)
  have 2: "time_Hour * hours' + time_Minute * minutes = time_Minute * (hours' * 60 + minutes)"
    by (simp add: time_Hour_def algebra_simps)
  have 3: "hours' * 60 + minutes = (if minute_of_day high - minute_of_day low < 0
           then minute_of_day high - minute_of_day low + 1440 else minute_of_day high - minute_of_day low)"
    using r unfolding hours'_def hours_def minutes_def minute_of_day_def
    by (auto split: if_splits)
  show ?thesis
    by (simp only: mod_day [OF b] 1 2 3)
qed

lemma RoundDownToFives_loop_eq: "(i - 1) * 10 \<le> m \<Longrightarrow> m < 60 \<Longrightarrow> 1 \<le> i \<Longrightarrow>
   RoundDownToFives_loop m i = (m div 10) * 10 + (if m mod 10 \<le> 5 then 0 else 5)"
proof (induction m i rule: RoundDownToFives_loop.induct)
  case (1 m i)
  from "1.prems" have i6: "i \<le> 6" by simp
  show ?case
  proof (cases "m < i * 10")
    case True
    with "1.prems" have "m div 10 = i - 1" by simp
    moreover from this have "m mod 10 = m - (i - 1) * 10"
      by (simp add: minus_div_mult_eq_mod [symmetric])
    ultimately show ?thesis
      using True i6 by (subst RoundDownToFives_loop.simps) (simp add: Let_def algebra_simps)
  next
    case False
    have "RoundDownToFives_loop m i = RoundDownToFives_loop m (i + 1)"
      using False i6 by (subst RoundDownToFives_loop.simps) (simp add: Let_def)
    also have "\<dots> = (m div 10) * 10 + (if m mod 10 \<le> 5 then 0 else 5)"
      using "1.IH" [OF i6 refl False] False "1.prems" by simp
    finally show ?thesis .
  qed
qed

section \<open>Minutes from the day's begin\<close>

text \<open>
  Claim C1. For a time t and a day start s, MinutesFromDayBegin is said to return
  (24 - s.hour + t.hour) * 60 + t.minute when t.hour < s.hour. The code subtracts t.hour
  instead of adding it: at t = 01:00 and s = 03:00 it returns 1200, where the stated
  formula (and the minutes really passed since 03:00) gives 1320.
\<close>

theorem C1_MinutesFromDayBegin_0100_from_0300:
  "MinutesFromDayBegin (NewTime 1 0) (NewTime 3 0) = 1200 \<and>
   (24 - Hour (NewTime 3 0) + Hour (NewTime 1 0)) * 60 + Minute (NewTime 1 0) = 1320"
  by (simp add: MinutesFromDayBegin_def Hour_NewTime Minute_NewTime)

section \<open>The sorting priority\<close>

text \<open>
  Claim C2, as stated: a candidate equal to now, and a candidate equal to dayStart, is
  always classified Before. The second half fails while now is before dayStart: with
  now = 00:15 and dayStart = 04:00 the candidate 04:00 is not Before (it is After).
\<close>

theorem C2_dayStart_candidate_counterexample:
  "GetTimeSortingPriority (NewTime 4 0) (NewTime 0 15) (NewTime 4 0) \<noteq> BeforePriority"
  by (simp add: GetTimeSortingPriority_def IsBefore_iff IsArgBefore_iff IsAfter_def
      minute_of_day_NewTime)

text \<open>
  Claim C2, amended: a candidate equal to now is always classified Before; a candidate
  equal to dayStart is classified Before when dayStart is before or equal to now, and
  After when now is strictly before dayStart.
\<close>

theorem C2_equal_candidates:
  "GetTimeSortingPriority now now dayStart = BeforePriority \<and>
  (minute_of_day dayStart \<le> minute_of_day now \<longrightarrow>
     GetTimeSortingPriority dayStart now dayStart = BeforePriority) \<and>
  (minute_of_day now < minute_of_day dayStart \<longrightarrow>
     GetTimeSortingPriority dayStart now dayStart = AfterPriority)"
  by (auto simp: GetTimeSortingPriority_def IsBefore_iff IsArgBefore_iff IsAfter_def)

theorem C2_equal_candidates_witness:
  "minute_of_day (NewTime 4 0) \<le> minute_of_day (NewTime 18 0) \<and>
   GetTimeSortingPriority (NewTime 4 0) (NewTime 18 0) (NewTime 4 0) = BeforePriority \<and>
   minute_of_day (NewTime 0 15) < minute_of_day (NewTime 4 0) \<and>
   GetTimeSortingPriority (NewTime 4 0) (NewTime 0 15) (NewTime 4 0) = AfterPriority"
  using C2_equal_candidates [of "NewTime 18 0" "NewTime 4 0"]
        C2_equal_candidates [of "NewTime 0 15" "NewTime 4 0"]
  by (simp add: minute_of_day_NewTime)

text \<open>
  Claim C4. GetTimeSortingPriority follows the two-case decision table, all comparisons
  being those of the hour and minute shown (that is, of the minute of the day).
  When now \<le> dayStart: Before if candidate \<le> dayStart and candidate \<le> now, After if
  candidate \<le> dayStart and candidate > now, LongAgo if candidate > dayStart.
  When now > dayStart: Before if candidate \<ge> dayStart and candidate \<le> now, After if
  candidate \<ge> dayStart and candidate > now, NotSoon if candidate < dayStart.
\<close>

theorem C4_decision_table:
  "(minute_of_day now \<le> minute_of_day dayStart \<longrightarrow>
      (minute_of_day c \<le> minute_of_day dayStart \<and> minute_of_day c \<le> minute_of_day now \<longrightarrow>
         GetTimeSortingPriority c now dayStart = BeforePriority) \<and>
      (minute_of_day c \<le> minute_of_day dayStart \<and> minute_of_day c > minute_of_day now \<longrightarrow>
         GetTimeSortingPriority c now dayStart = AfterPriority) \<and>
      (minute_of_day c > minute_of_day dayStart \<longrightarrow>
         GetTimeSortingPriority c now dayStart = LongAgoPriority)) \<and>
   (minute_of_day now > minute_of_day dayStart \<longrightarrow>
      (minute_of_day c \<ge> minute_of_day dayStart \<and> minute_of_day c \<le> minute_of_day now \<longrightarrow>
         GetTimeSortingPriority c now dayStart = BeforePriority) \<and>
      (minute_of_day c \<ge> minute_of_day dayStart \<and> minute_of_day c > minute_of_day now \<longrightarrow>
         GetTimeSortingPriority c now dayStart = AfterPriority) \<and>
      (minute_of_day c < minute_of_day dayStart \<longrightarrow>
         GetTimeSortingPriority c now dayStart = NotSoonPriority))"
  by (auto simp: GetTimeSortingPriority_def IsBefore_iff IsArgBefore_iff IsAfter_def)

theorem C4_decision_table_witness:
  "minute_of_day (NewTime 0 15) \<le> minute_of_day (NewTime 4 0) \<and>
   minute_of_day (NewTime 0 10) \<le> minute_of_day (NewTime 4 0) \<and>
   minute_of_day (NewTime 0 10) \<le> minute_of_day (NewTime 0 15) \<and>
   GetTimeSortingPriority (NewTime 0 10) (NewTime 0 15) (NewTime 4 0) = BeforePriority \<and>
   minute_of_day (NewTime 0 20) \<le> minute_of_day (NewTime 4 0) \<and>
   minute_of_day (NewTime 0 20) > minute_of_day (NewTime 0 15) \<and>
   GetTimeSortingPriority (NewTime 0 20) (NewTime 0 15) (NewTime 4 0) = AfterPriority \<and>
   minute_of_day (NewTime 4 10) > minute_of_day (NewTime 4 0) \<and>
   GetTimeSortingPriority (NewTime 4 10) (NewTime 0 15) (NewTime 4 0) = LongAgoPriority \<and>
   minute_of_day (NewTime 18 0) > minute_of_day (NewTime 4 0) \<and>
   minute_of_day (NewTime 14 0) \<ge> minute_of_day (NewTime 4 0) \<and>
   minute_of_day (NewTime 14 0) \<le> minute_of_day (NewTime 18 0) \<and>
   GetTimeSortingPriority (NewTime 14 0) (NewTime 18 0) (NewTime 4 0) = BeforePriority \<and>
   minute_of_day (NewTime 18 30) \<ge> minute_of_day (NewTime 4 0) \<and>
   minute_of_day (NewTime 18 30) > minute_of_day (NewTime 18 0) \<and>
   GetTimeSortingPriority (NewTime 18 30) (NewTime 18 0) (NewTime 4 0) = AfterPriority \<and>
   minute_of_day (NewTime 2 0) < minute_of_day (NewTime 4 0) \<and>
   GetTimeSortingPriority (NewTime 2 0) (NewTime 18 0) (NewTime 4 0) = NotSoonPriority"
  using C4_decision_table [of "NewTime 0 15" "NewTime 4 0" "NewTime 0 10"]
        C4_decision_table [of "NewTime 0 15" "NewTime 4 0" "NewTime 0 20"]
        C4_decision_table [of "NewTime 0 15" "NewTime 4 0" "NewTime 4 10"]
        C4_decision_table [of "NewTime 18 0" "NewTime 4 0" "NewTime 14 0"]
        C4_decision_table [of "NewTime 18 0" "NewTime 4 0" "NewTime 18 30"]
        C4_decision_table [of "NewTime 18 0" "NewTime 4 0" "NewTime 2 0"]
  by (simp add: minute_of_day_NewTime)

section \<open>The circular range\<close>

text \<open>
  Claim C6. For all times low and high, RangeUp low high and SmartDiff low high are the
  same duration, ((minute of day of high - minute of day of low) mod 1440) minutes; so
  the result lies between 0 and 1439 minutes, is 0 when low equals high (EqualTime), and
  RangeUp low high = 1440 minutes - RangeUp high low when low and high differ.
\<close>

theorem C6_RangeUp_SmartDiff:
  "RangeUp low high = SmartDiff low high \<and>
   RangeUp low high = time_Minute * ((minute_of_day high - minute_of_day low) mod 1440) \<and>
   0 \<le> RangeUp low high \<and> RangeUp low high \<le> 1439 * time_Minute \<and>
   (EqualTime low high \<longrightarrow> RangeUp low high = 0) \<and>
   (\<not> EqualTime low high \<longrightarrow> RangeUp low high = 1440 * time_Minute - RangeUp high low)"
proof -
  have b: "- 1440 < minute_of_day high - minute_of_day low"
          "minute_of_day high - minute_of_day low < 1440"
          "- 1440 < minute_of_day low - minute_of_day high"
          "minute_of_day low - minute_of_day high < 1440"
    using minute_of_day_range [of low] minute_of_day_range [of high] by auto
  have m: "0 < time_Minute" by (simp add: time_Minute_def)
  have 1: "RangeUp low high = SmartDiff low high"
    by (simp add: RangeUp_eq SmartDiff_eq)
  have 2: "0 \<le> RangeUp low high"
    using m by (simp add: RangeUp_eq)
  have "(minute_of_day high - minute_of_day low) mod 1440 \<le> 1439" by simp
  then have 3: "RangeUp low high \<le> 1439 * time_Minute"
    unfolding RangeUp_eq using m by (simp add: mult.commute)
  have 4: "EqualTime low high \<longrightarrow> RangeUp low high = 0"
    by (simp add: RangeUp_eq EqualTime_iff)
  have 5: "\<not> EqualTime low high \<longrightarrow> RangeUp low high = 1440 * time_Minute - RangeUp high low"
    unfolding RangeUp_eq EqualTime_iff mod_day [OF b(1,2)] mod_day [OF b(3,4)]
    by (auto simp: algebra_simps)
  from 1 2 3 4 5 RangeUp_eq show ?thesis by blast
qed

theorem C6_RangeUp_SmartDiff_witness:
  "EqualTime (NewTime 10 15) (NewTime 10 15) \<and> RangeUp (NewTime 10 15) (NewTime 10 15) = 0 \<and>
   \<not> EqualTime (NewTime 22 30) (NewTime 1 45) \<and>
   RangeUp (NewTime 22 30) (NewTime 1 45) = 195 * time_Minute \<and>
   SmartDiff (NewTime 22 30) (NewTime 1 45) = 195 * time_Minute \<and>
   RangeUp (NewTime 22 30) (NewTime 1 45) = 1440 * time_Minute - RangeUp (NewTime 1 45) (NewTime 22 30)"
  using C6_RangeUp_SmartDiff [of "NewTime 10 15" "NewTime 10 15"]
        C6_RangeUp_SmartDiff [of "NewTime 22 30" "NewTime 1 45"]
  by (simp add: EqualTime_iff minute_of_day_NewTime)

section \<open>Rounding to the five-minute grid\<close>

lemma minute_of_day_NewFromTime: "minute_of_day (NewFromTime u) = (u div time_Minute) mod 1440"
proof -
  have "minute_of_day \<lparr>stamp = u, isSet = True\<rparr> = (u div time_Minute) mod 1440"
    by (simp add: minute_of_day_stamp)
  then have "go_Hour u * 60 + go_Minute u = (u div time_Minute) mod 1440"
    by (simp add: minute_of_day_def Hour_def Minute_def)
  moreover have "NewFromTime u = NewTime (go_Hour u) (go_Minute u)"
    by (simp add: NewFromTime_def NewTime_def)
  ultimately show ?thesis by (simp add: minute_of_day_NewTime)
qed

lemma rounded_range:
  fixes m :: int
  assumes "0 \<le> m" and "m \<le> 59"
  shows "0 \<le> (m div 10) * 10 + (if m mod 10 \<le> 5 then 0 else 5) \<and>
         (m div 10) * 10 + (if m mod 10 \<le> 5 then 0 else 5) \<le> 59"
proof -
  define q where "q = m div 10"
  define r where "r = m mod 10"
  have "m = q * 10 + r" and "0 \<le> r" and "r < 10" and "0 \<le> q"
    using assms by (simp_all add: q_def r_def)
  with assms have "0 \<le> q * 10 + (if r \<le> 5 then 0 else 5) \<and>
      q * 10 + (if r \<le> 5 then 0 else 5) \<le> 59"
    by auto
  then show ?thesis by (simp only: q_def r_def)
qed

text \<open>
  Claim C10. For every time t with minute m, q = m div 10 and r = m mod 10:
  RoundDownToFives t has the hour of t and the minute q * 10 + (0 if r \<le> 5, else 5), so
  that minute 15 gives 10, minute 10 gives 10 and minute 5 gives 0; and RoundUpToFives t
  is RoundDownToFives t plus five minutes on the clock, carried into the hour and wrapped
  past 23:59 to 00:00 (its minute of the day is that of RoundDownToFives t plus 5,
  modulo 1440).
\<close>

theorem C10_rounding:
  "Hour (RoundDownToFives t) = Hour t \<and>
   Minute (RoundDownToFives t) = (Minute t div 10) * 10 + (if Minute t mod 10 \<le> 5 then 0 else 5) \<and>
   (Minute t = 15 \<longrightarrow> Minute (RoundDownToFives t) = 10) \<and>
   (Minute t = 10 \<longrightarrow> Minute (RoundDownToFives t) = 10) \<and>
   (Minute t = 5 \<longrightarrow> Minute (RoundDownToFives t) = 0) \<and>
   minute_of_day (RoundUpToFives t) = (minute_of_day (RoundDownToFives t) + 5) mod 1440"
proof -
  define r where "r = (Minute t div 10) * 10 + (if Minute t mod 10 \<le> 5 then 0 else 5)"
  have m: "0 \<le> Minute t" "Minute t \<le> 59" and h: "0 \<le> Hour t" "Hour t \<le> 23"
    using Minute_range [of t] Hour_range [of t] by auto
  have rr: "0 \<le> r" "r \<le> 59"
    using rounded_range [OF m] by (simp_all add: r_def)
  have "RoundDownToFives_loop (Minute t) 1 = r"
    unfolding r_def using m by (intro RoundDownToFives_loop_eq) auto
  then have rd: "RoundDownToFives t = NewTime (Hour t) r"
    by (simp add: RoundDownToFives_def)
  have 1: "Hour (RoundDownToFives t) = Hour t"
    unfolding rd using h rr by (rule Hour_NewTime)
  have 2: "Minute (RoundDownToFives t) = r"
    unfolding rd using h rr by (rule Minute_NewTime)
  have "stamp (addTime (RoundDownToFives t) time_Minute 5) = go_Add (stamp (RoundDownToFives t)) (5 * time_Minute)"
    by (simp add: addTime_def mult.commute)
  moreover have "minute_of_day (RoundUpToFives t) =
      (go_Add (stamp (RoundDownToFives t)) (5 * time_Minute) div time_Minute) mod 1440"
    by (simp only: RoundUpToFives_def minute_of_day_NewFromTime)
  ultimately have "minute_of_day (RoundUpToFives t) = minute_of_day (addTime (RoundDownToFives t) time_Minute 5)"
    by (simp only: minute_of_day_stamp)
  then have 3: "minute_of_day (RoundUpToFives t) = (minute_of_day (RoundDownToFives t) + 5) mod 1440"
    by (simp only: minute_of_day_addTime)
  from 1 2 3 show ?thesis by (simp add: r_def)
qed

theorem C10_rounding_witness:
  "Minute (NewTime 10 15) = 15 \<and> Minute (RoundDownToFives (NewTime 10 15)) = 10 \<and>
   Minute (NewTime 10 10) = 10 \<and> Minute (RoundDownToFives (NewTime 10 10)) = 10 \<and>
   Minute (NewTime 10 5) = 5 \<and> Minute (RoundDownToFives (NewTime 10 5)) = 0"
  using C10_rounding [of "NewTime 10 15"] C10_rounding [of "NewTime 10 10"] C10_rounding [of "NewTime 10 5"]
  by (simp add: Minute_NewTime)

section \<open>Adding and subtracting a duration\<close>

lemma Minutes_int_nonneg: "0 \<le> d \<Longrightarrow> 0 \<le> Minutes_int d"
  by (simp add: Minutes_int_def time_Minute_def)

lemma AddTime_minute_of_day:
  assumes "0 \<le> d"
  shows "minute_of_day (AddTime t d) = (minute_of_day t + Minutes_int d) mod 1440"
proof -
  define k where "k = drop_days (Minutes_int d)"
  define md where "md = minute_of_day t"
  have k: "k mod 1440 = Minutes_int d mod 1440"
    using drop_days_nonneg [OF Minutes_int_nonneg [OF assms]] by (simp add: k_def)
  have z: "minute_of_day (NewTime 0 0) = 0" by (simp add: minute_of_day_NewTime)
  have "k - (1440 - md) = (md + k) - 1440" by simp
  then have w: "(k - (1440 - md)) mod 1440 = (md + k) mod 1440"
    by (simp only: minus_mod_self2)
  have "minute_of_day (AddTime t d) = (md + k) mod 1440"
    using w
    by (simp add: AddTime_def Let_def k_def [symmetric] md_def [symmetric] minute_of_day_addTime z
         MinutesTillDayEnd_def MinutesFromDayBegin_Empty minutesInDay_def)
  also have "\<dots> = (md + Minutes_int d) mod 1440"
    using k by (metis mod_add_right_eq)
  finally show ?thesis by (simp add: md_def)
qed

lemma SubTime_minute_of_day:
  assumes "0 \<le> d"
  shows "minute_of_day (SubTime t d) = (minute_of_day t - Minutes_int d) mod 1440"
proof -
  define k where "k = drop_days (Minutes_int d)"
  define md where "md = minute_of_day t"
  have k: "k mod 1440 = Minutes_int d mod 1440"
    using drop_days_nonneg [OF Minutes_int_nonneg [OF assms]] by (simp add: k_def)
  have z: "minute_of_day (NewTime 23 59) = 1439" by (simp add: minute_of_day_NewTime)
  have "1439 - (k - md - 1) = (md - k) + 1440" by simp
  then have w: "(1439 - (k - md - 1)) mod 1440 = (md - k) mod 1440"
    by (simp only: mod_add_self2)
  have "minute_of_day (SubTime t d) = (md - k) mod 1440"
    using w
    by (simp add: SubTime_def subTime_def Let_def k_def [symmetric] md_def [symmetric]
         minute_of_day_addTime z MinutesFromDayBegin_Empty)
  also have "\<dots> = (md - Minutes_int d) mod 1440"
    using k by (metis mod_diff_right_eq)
  finally show ?thesis by (simp add: md_def)
qed

text \<open>
  Claim C5. For every time t with minute of the day m and every non-negative duration,
  whose whole minutes are \<Delta> (what the code reads off the duration, seconds ignored):
  AddTime gives the time with minute of the day (m + \<Delta>) mod 1440 and SubTime the one
  with (m - \<Delta>) mod 1440, however many days \<Delta> spans. A duration of n whole minutes
  has \<Delta> = n. In particular 10:30 plus 25 hours is 11:30 and 10:30 minus 25 hours is
  09:30.
\<close>

theorem C5_AddTime_SubTime:
  "(0 \<le> d \<longrightarrow>
      minute_of_day (AddTime t d) = (minute_of_day t + Minutes_int d) mod 1440 \<and>
      minute_of_day (SubTime t d) = (minute_of_day t - Minutes_int d) mod 1440) \<and>
   (0 \<le> n \<longrightarrow> Minutes_int (n * time_Minute) = n) \<and>
   Hour (AddTime (NewTime 10 30) (25 * time_Hour)) = 11 \<and>
   Minute (AddTime (NewTime 10 30) (25 * time_Hour)) = 30 \<and>
   Hour (SubTime (NewTime 10 30) (25 * time_Hour)) = 9 \<and>
   Minute (SubTime (NewTime 10 30) (25 * time_Hour)) = 30"
proof -
  have h: "(0::int) \<le> 25 * time_Hour" "Minutes_int (25 * time_Hour) = 1500"
    by (simp_all add: Minutes_int_def time_Hour_def time_Minute_def)
  have a: "minute_of_day (AddTime (NewTime 10 30) (25 * time_Hour)) = 690"
    by (simp add: AddTime_minute_of_day [OF h(1)] h(2) minute_of_day_NewTime)
  have s: "minute_of_day (SubTime (NewTime 10 30) (25 * time_Hour)) = 570"
    by (simp add: SubTime_minute_of_day [OF h(1)] h(2) minute_of_day_NewTime)
  have n: "0 \<le> n \<longrightarrow> Minutes_int (n * time_Minute) = n"
    by (simp add: Minutes_int_def time_Minute_def)
  show ?thesis
    using n by (simp add: AddTime_minute_of_day SubTime_minute_of_day
        Hour_minute_of_day Minute_minute_of_day a s)
qed

theorem C5_AddTime_SubTime_witness:
  "0 \<le> 3000 * time_Minute \<and>
   minute_of_day (AddTime (NewTime 23 0) (3000 * time_Minute)) =
     (minute_of_day (NewTime 23 0) + Minutes_int (3000 * time_Minute)) mod 1440 \<and>
   minute_of_day (SubTime (NewTime 23 0) (3000 * time_Minute)) =
     (minute_of_day (NewTime 23 0) - Minutes_int (3000 * time_Minute)) mod 1440 \<and>
   (0::int) \<le> 3000 \<and> Minutes_int (3000 * time_Minute) = 3000"
  using C5_AddTime_SubTime [where d = "3000 * time_Minute" and t = "NewTime 23 0" and n = 3000]
  by (simp add: time_Minute_def)

section \<open>Parsing a time of day\<close>

lemma ParseTime_sep_None_iff:
  "ParseTime_sep s sep = None \<longleftrightarrow> length (Split s sep) \<noteq> 2 \<and> length s \<noteq> 4"
  by (auto simp: ParseTime_sep_def Let_def split: option.splits)

lemma ParseTime_loop_first:
  "(\<forall>x\<in>set pre. ParseTime_sep s x = None) \<Longrightarrow> ParseTime_sep s sep = Some r \<Longrightarrow>
   ParseTime_loop s (pre @ sep # post) = r"
  by (induction pre) auto

lemma ParseTime_loop_none:
  "(\<forall>x\<in>set xs. ParseTime_sep s x = None) \<Longrightarrow> ParseTime_loop s xs = Inl (InvalidTimeError s)"
  by (induction xs) auto

lemma ParseTime_sep_hour_error:
  "ParseTime_sep s sep = Some (Inl (InvalidHourError h)) \<Longrightarrow> h < 0 \<or> 23 < h"
  by (auto simp: ParseTime_sep_def Let_def split: option.splits if_splits)

lemma ParseTime_sep_minute_error:
  "ParseTime_sep s sep = Some (Inl (InvalidMinuteError m)) \<Longrightarrow> m < 0 \<or> 59 < m"
  by (auto simp: ParseTime_sep_def Let_def split: option.splits if_splits)

lemma ParseTime_sep_1_99_5: "ParseTime_sep ''1 99:5'' CHR '' '' = Some (Inl (InvalidMinuteError 99))"
  by code_simp

lemma ParseTime_sep_25_00:
  "ParseTime_sep ''25:00'' CHR '' '' = None \<and>
   ParseTime_sep ''25:00'' CHR '':'' = Some (Inl (InvalidHourError 25))"
  by code_simp

lemma ParseTime_sep_slashes: "list_all (\<lambda>x. ParseTime_sep ''1/1/1'' x = None) seps"
  by code_simp

lemma ParseTime_sep_hour_out_of_range:
  assumes "length (Split s sep) = 2 \<or> length s = 4"
    and "toks = (if length (Split s sep) = 2 then Split s sep else [take 2 s, take 2 (drop 2 s)])"
    and "Atoi (prepareNumber (toks ! 0) False) = Some h"
    and "h < 0 \<or> 23 < h"
  shows "ParseTime_sep s sep = Some (Inl (InvalidHourError h))"
  using assms by (auto simp: ParseTime_sep_def Let_def)

lemma ParseTime_sep_minute_out_of_range:
  assumes "length (Split s sep) = 2 \<or> length s = 4"
    and "toks = (if length (Split s sep) = 2 then Split s sep else [take 2 s, take 2 (drop 2 s)])"
    and "Atoi (prepareNumber (toks ! 0) False) = Some h"
    and "0 \<le> h" and "h \<le> 23"
    and "Atoi (prepareNumber (toks ! 1) False) = Some m"
    and "m < 0 \<or> 59 < m"
  shows "ParseTime_sep s sep = Some (Inl (InvalidMinuteError m))"
  using assms by (auto simp: ParseTime_sep_def Let_def)

lemma ParseTime_sep_tokens_1_99_5:
  "Split ''1 99:5'' CHR '' '' = [''1'', ''99:5''] \<and>
   Atoi (prepareNumber ''1'' False) = Some 1 \<and>
   Atoi (prepareNumber ''99:5'' False) = Some 99"
  by code_simp

lemma ParseTime_sep_tokens_25_00:
  "Split ''25:00'' CHR '' '' = [''25:00''] \<and>
   Split ''25:00'' CHR '':'' = [''25'', ''00''] \<and>
   Atoi (prepareNumber ''25'' False) = Some 25"
  by code_simp

text \<open>
  Claim C7, as stated: when the attempt with one separator yields an hour outside 0..23
  or a minute outside 0..59, the next separator is tried, and ParseTime fails only if the
  attempts for all separators fail. On "1 99:5" the attempt with the space yields the
  minute 99 and ParseTime returns that error, although the attempt with the colon,
  a later separator of the list, gives 01:05.
\<close>

theorem C7_out_of_range_counterexample:
  "ParseTime ''1 99:5'' = Inl (InvalidMinuteError 99) \<and>
   ParseTime_sep ''1 99:5'' CHR '' '' = Some (Inl (InvalidMinuteError 99)) \<and>
   ParseTime_sep ''1 99:5'' CHR '':'' = Some (Inr (NewTime 1 5))"
  by code_simp

text \<open>
  Claim C7, amended. The empty string gives the time-is-empty error. For every other
  input string s: a separator is passed over (and the next one tried) exactly when it
  does not split s into two tokens and s is not 4 bytes long. ParseTime returns what the
  attempt with the first separator not passed over returns, in the order space, colon,
  hyphen, underscore, comma, period: an hour outside 0..23 or a minute outside 0..59 in
  that attempt is returned as an error at once, and no later separator is tried; and an
  hour or minute error of an attempt always carries a value outside the range.
  ParseTime returns its invalid-time error when every separator is passed over.
\<close>

theorem C7_first_attempt_decides:
  "ParseTime [] = Inl TimeIsEmpty \<and>
   (ParseTime_sep s sep = None \<longleftrightarrow> length (Split s sep) \<noteq> 2 \<and> length s \<noteq> 4) \<and>
   (s \<noteq> [] \<and> seps = pre @ sep # post \<and> (\<forall>x\<in>set pre. ParseTime_sep s x = None) \<and>
      ParseTime_sep s sep = Some r \<longrightarrow> ParseTime s = r) \<and>
   (s \<noteq> [] \<and> (\<forall>x\<in>set seps. ParseTime_sep s x = None) \<longrightarrow>
      ParseTime s = Inl (InvalidTimeError s)) \<and>
   (s \<noteq> [] \<and> seps = pre @ sep # post \<and>
      (\<forall>x\<in>set pre. length (Split s x) \<noteq> 2 \<and> length s \<noteq> 4) \<and>
      (length (Split s sep) = 2 \<or> length s = 4) \<and>
      toks = (if length (Split s sep) = 2 then Split s sep else [take 2 s, take 2 (drop 2 s)]) \<and>
      Atoi (prepareNumber (toks ! 0) False) = Some h \<and> (h < 0 \<or> 23 < h) \<longrightarrow>
      ParseTime s = Inl (InvalidHourError h)) \<and>
   (s \<noteq> [] \<and> seps = pre @ sep # post \<and>
      (\<forall>x\<in>set pre. length (Split s x) \<noteq> 2 \<and> length s \<noteq> 4) \<and>
      (length (Split s sep) = 2 \<or> length s = 4) \<and>
      toks = (if length (Split s sep) = 2 then Split s sep else [take 2 s, take 2 (drop 2 s)]) \<and>
      Atoi (prepareNumber (toks ! 0) False) = Some h \<and> 0 \<le> h \<and> h \<le> 23 \<and>
      Atoi (prepareNumber (toks ! 1) False) = Some m \<and> (m < 0 \<or> 59 < m) \<longrightarrow>
      ParseTime s = Inl (InvalidMinuteError m)) \<and>
   (ParseTime_sep s sep = Some (Inl (InvalidHourError h)) \<longrightarrow> h < 0 \<or> 23 < h) \<and>
   (ParseTime_sep s sep = Some (Inl (InvalidMinuteError m)) \<longrightarrow> m < 0 \<or> 59 < m)"
proof -
  have 0: "ParseTime [] = Inl TimeIsEmpty"
    by (simp add: ParseTime_def)
  have 1: "s \<noteq> [] \<and> seps = pre @ sep # post \<and> (\<forall>x\<in>set pre. ParseTime_sep s x = None) \<and>
      ParseTime_sep s sep = Some r \<longrightarrow> ParseTime s = r"
    using ParseTime_loop_first [of pre s sep r post] by (auto simp: ParseTime_def)
  have 2: "s \<noteq> [] \<and> (\<forall>x\<in>set seps. ParseTime_sep s x = None) \<longrightarrow>
      ParseTime s = Inl (InvalidTimeError s)"
    using ParseTime_loop_none [of seps s] by (auto simp: ParseTime_def)
  have 3: "s \<noteq> [] \<and> seps = pre @ sep # post \<and>
      (\<forall>x\<in>set pre. length (Split s x) \<noteq> 2 \<and> length s \<noteq> 4) \<and>
      (length (Split s sep) = 2 \<or> length s = 4) \<and>
      toks = (if length (Split s sep) = 2 then Split s sep else [take 2 s, take 2 (drop 2 s)]) \<and>
      Atoi (prepareNumber (toks ! 0) False) = Some h \<and> (h < 0 \<or> 23 < h) \<longrightarrow>
      ParseTime s = Inl (InvalidHourError h)"
  proof (intro impI, elim conjE)
    assume a: "s \<noteq> []" "seps = pre @ sep # post"
      "\<forall>x\<in>set pre. length (Split s x) \<noteq> 2 \<and> length s \<noteq> 4"
      "length (Split s sep) = 2 \<or> length s = 4"
      "toks = (if length (Split s sep) = 2 then Split s sep else [take 2 s, take 2 (drop 2 s)])"
      "Atoi (prepareNumber (toks ! 0) False) = Some h" "h < 0 \<or> 23 < h"
    from a(3) have p: "\<forall>x\<in>set pre. ParseTime_sep s x = None"
      by (simp add: ParseTime_sep_None_iff)
    have "ParseTime_sep s sep = Some (Inl (InvalidHourError h))"
      using a(4-7) by (rule ParseTime_sep_hour_out_of_range)
    with p have "ParseTime_loop s (pre @ sep # post) = Inl (InvalidHourError h)"
      by (rule ParseTime_loop_first)
    with a(1,2) show "ParseTime s = Inl (InvalidHourError h)"
      by (simp add: ParseTime_def)
  qed
  have 4: "s \<noteq> [] \<and> seps = pre @ sep # post \<and>
      (\<forall>x\<in>set pre. length (Split s x) \<noteq> 2 \<and> length s \<noteq> 4) \<and>
      (length (Split s sep) = 2 \<or> length s = 4) \<and>
      toks = (if length (Split s sep) = 2 then Split s sep else [take 2 s, take 2 (drop 2 s)]) \<and>
      Atoi (prepareNumber (toks ! 0) False) = Some h \<and> 0 \<le> h \<and> h \<le> 23 \<and>
      Atoi (prepareNumber (toks ! 1) False) = Some m \<and> (m < 0 \<or> 59 < m) \<longrightarrow>
      ParseTime s = Inl (InvalidMinuteError m)"
  proof (intro impI, elim conjE)
    assume a: "s \<noteq> []" "seps = pre @ sep # post"
      "\<forall>x\<in>set pre. length (Split s x) \<noteq> 2 \<and> length s \<noteq> 4"
      "length (Split s sep) = 2 \<or> length s = 4"
      "toks = (if length (Split s sep) = 2 then Split s sep else [take 2 s, take 2 (drop 2 s)])"
      "Atoi (prepareNumber (toks ! 0) False) = Some h" "0 \<le> h" "h \<le> 23"
      "Atoi (prepareNumber (toks ! 1) False) = Some m" "m < 0 \<or> 59 < m"
    from a(3) have p: "\<forall>x\<in>set pre. ParseTime_sep s x = None"
      by (simp add: ParseTime_sep_None_iff)
    have "ParseTime_sep s sep = Some (Inl (InvalidMinuteError m))"
      using a(4-10) by (rule ParseTime_sep_minute_out_of_range)
    with p have "ParseTime_loop s (pre @ sep # post) = Inl (InvalidMinuteError m)"
      by (rule ParseTime_loop_first)
    with a(1,2) show "ParseTime s = Inl (InvalidMinuteError m)"
      by (simp add: ParseTime_def)
  qed
  from 0 1 2 3 4 ParseTime_sep_None_iff [of s sep] ParseTime_sep_hour_error [of s sep h]
    ParseTime_sep_minute_error [of s sep m]
  show ?thesis by blast
qed

theorem C7_first_attempt_decides_witness:
  "ParseTime [] = Inl TimeIsEmpty \<and>
   ''1 99:5'' \<noteq> [] \<and> seps = [] @ CHR '' '' # tl seps \<and>
   length (Split ''1 99:5'' CHR '' '') = 2 \<and>
   Atoi (prepareNumber (Split ''1 99:5'' CHR '' '' ! 0) False) = Some 1 \<and>
   (0::int) \<le> 1 \<and> (1::int) \<le> 23 \<and>
   Atoi (prepareNumber (Split ''1 99:5'' CHR '' '' ! 1) False) = Some 99 \<and> (59::int) < 99 \<and>
   ParseTime_sep ''1 99:5'' CHR '' '' = Some (Inl (InvalidMinuteError 99)) \<and>
   ParseTime ''1 99:5'' = Inl (InvalidMinuteError 99) \<and>
   ''25:00'' \<noteq> [] \<and> seps = [CHR '' ''] @ CHR '':'' # tl (tl seps) \<and>
   length (Split ''25:00'' CHR '' '') \<noteq> 2 \<and> length ''25:00'' \<noteq> 4 \<and>
   ParseTime_sep ''25:00'' CHR '' '' = None \<and>
   length (Split ''25:00'' CHR '':'') = 2 \<and>
   Atoi (prepareNumber (Split ''25:00'' CHR '':'' ! 0) False) = Some 25 \<and> (23::int) < 25 \<and>
   ParseTime_sep ''25:00'' CHR '':'' = Some (Inl (InvalidHourError 25)) \<and>
   ParseTime ''25:00'' = Inl (InvalidHourError 25) \<and>
   ''1/1/1'' \<noteq> [] \<and> list_all (\<lambda>x. ParseTime_sep ''1/1/1'' x = None) seps \<and>
   ParseTime ''1/1/1'' = Inl (InvalidTimeError ''1/1/1'')"
  using C7_first_attempt_decides [where s = "''1 99:5''" and sep = "CHR '' ''" and pre = "[]"
          and post = "tl seps" and r = "Inl (InvalidMinuteError 99)"
          and toks = "[''1'', ''99:5'']" and h = 1 and m = 99]
        C7_first_attempt_decides [where s = "''25:00''" and sep = "CHR '':''"
          and pre = "[CHR '' '']" and post = "tl (tl seps)" and r = "Inl (InvalidHourError 25)"
          and toks = "[''25'', ''00'']" and h = 25 and m = 0]
        C7_first_attempt_decides [where s = "''1/1/1''" and sep = "CHR '' ''" and pre = "[]"
          and post = "tl seps" and r = "Inl (InvalidMinuteError 99)"
          and toks = "[]" and h = 0 and m = 99]
        ParseTime_sep_1_99_5 ParseTime_sep_25_00 ParseTime_sep_slashes
        ParseTime_sep_tokens_1_99_5 ParseTime_sep_tokens_25_00
  by (simp add: list_all_iff) (simp add: seps_def)

section \<open>Parsing a UTC offset\<close>

lemma ParseUTCOffset_plus_3: "ParseUTCOffset ''+3'' = Inr (FixedZone ''UTC+3'' 10800)"
  by code_simp

lemma ParseUTCOffset_UTC_0200: "ParseUTCOffset ''UTC+02:00'' = Inr (FixedZone ''UTC+02'' 7200)"
  by code_simp

text \<open>
  Claim C3. ParseUTCOffset is said to return an error or the offset of a real-world
  combination, the hour magnitude being at most 14 (sign +) or 12 (sign -). The hours
  token goes through Atoi, which reads a sign of its own, and only the upper bound is
  checked: "+-15" is accepted with the offset - 54000 (15 hours west), which is no
  real-world offset. On "UTC" nothing is left after UTC is removed and the read of the
  first byte panics: neither an error nor an offset is returned.
\<close>

theorem C3_negative_hours_accepted:
  "ParseUTCOffset ''+-15'' = Inr (FixedZone ''UTC+-15'' (- 54000)) \<and>
   - 54000 \<notin> set real_world_offsets \<and>
   ParseUTCOffset ''UTC'' = Inl PanicIndexOutOfRange"
  by code_simp

section \<open>ParseTimezone\<close>

text \<open>
  Claim C9, as stated: for every s on which the zone lookup fails, ParseTimezone tries s
  against the offset grammar and succeeds whenever ParseUTCOffset accepts s. The string
  "+3" is in no zone database and ParseUTCOffset accepts it, but ParseTimezone rejects
  every string shorter than 3 bytes before any lookup.
\<close>

theorem C9_short_string_counterexample:
  "LoadLocation no_zones ''+3'' = None \<and>
   ParseUTCOffset ''+3'' = Inr (FixedZone ''UTC+3'' 10800) \<and>
   ParseTimezone no_zones 0 ''+3'' = Inl (InvalidTimezone ''+3'')"
  by (simp add: ParseUTCOffset_plus_3 ParseTimezone_def LoadLocation_def no_zones_def)

text \<open>
  Claim C9, amended. For every string s of at least 3 bytes on which the zone lookup
  fails, ParseTimezone s is what ParseUTCOffset s gives: its failure, or the Timezone of
  the location it returns. ParseTimezone fails exactly when s is shorter than 3 bytes, or
  the zone lookup and ParseUTCOffset both fail.
\<close>

theorem C9_offset_grammar_fallback:
  "(3 \<le> length s \<and> LoadLocation db s = None \<longrightarrow>
      ParseTimezone db now s =
        (case ParseUTCOffset s of Inl e \<Rightarrow> Inl e | Inr l \<Rightarrow> Inr (NewTimezone now (Some l)))) \<and>
   (isl (ParseTimezone db now s) \<longleftrightarrow>
      length s < 3 \<or> (LoadLocation db s = None \<and> isl (ParseUTCOffset s)))"
  by (auto simp: ParseTimezone_def split: option.splits sum.splits)

theorem C9_offset_grammar_fallback_witness:
  "3 \<le> length ''UTC+02:00'' \<and> LoadLocation no_zones ''UTC+02:00'' = None \<and>
   ParseTimezone no_zones 0 ''UTC+02:00'' = Inr (NewTimezone 0 (Some (FixedZone ''UTC+02'' 7200)))"
  using C9_offset_grammar_fallback [of "''UTC+02:00''" no_zones 0]
  by (simp add: ParseUTCOffset_UTC_0200 LoadLocation_def no_zones_def)

section \<open>The Timezone constructors\<close>

lemma is_digit_char_of: "d < 10 \<Longrightarrow> is_digit (char_of (48 + d :: nat))"
  by (simp add: is_digit_def)

lemma digit_value_char_of: "d < 10 \<Longrightarrow> (of_char (char_of (48 + d :: nat)) :: int) = 48 + int d"
proof -
  assume "d < 10"
  then have "(of_char (char_of (48 + d :: nat)) :: nat) = 48 + d" by simp
  then have "int (of_char (char_of (48 + d :: nat))) = int (48 + d)" by simp
  then show ?thesis by (simp only: of_nat_of_char)
qed

lemma decimal_digits: "list_all is_digit (decimal n)"
proof (induction n rule: decimal.induct)
  case (1 n)
  show ?case
  proof (cases "n < 10")
    case True
    then show ?thesis by (subst decimal.simps) (simp add: is_digit_char_of)
  next
    case False
    with "1.IH" show ?thesis by (subst decimal.simps) (simp add: is_digit_char_of)
  qed
qed

lemma decimal_nonempty: "decimal n \<noteq> []"
  by (subst decimal.simps) simp

lemma digits_value_snoc: "digits_value (ds @ [c]) = digits_value ds * 10 + (of_char c - 48)"
  by (simp add: digits_value_def)

lemma digits_value_decimal: "digits_value (decimal n) = int n"
proof (induction n rule: decimal.induct)
  case (1 n)
  show ?case
  proof (cases "n < 10")
    case True
    then show ?thesis
      by (subst decimal.simps) (simp add: digits_value_def digit_value_char_of)
  next
    case False
    have "digits_value (decimal n) = digits_value (decimal (n div 10)) * 10 + int (n mod 10)"
      using False by (subst decimal.simps) (simp add: digits_value_snoc digit_value_char_of)
    also have "\<dots> = int (n div 10) * 10 + int (n mod 10)"
      using "1.IH" False by simp
    also have "\<dots> = int n" by (simp add: zdiv_int zmod_int)
    finally show ?thesis .
  qed
qed

lemma read_decimal_decimal: "read_decimal (decimal n) = Some (int n)"
  by (simp add: read_decimal_def decimal_digits decimal_nonempty digits_value_decimal)

lemma colon_not_digit: "CHR '':'' \<notin> set (decimal n)"
proof
  assume "CHR '':'' \<in> set (decimal n)"
  with decimal_digits [of n] have "is_digit CHR '':''" by (simp add: list_all_iff)
  then show False by (simp add: is_digit_def)
qed

lemma Split_nonempty: "Split xs sep \<noteq> []"
  by (induction xs) (auto split: list.splits)

lemma Split_no_sep: "sep \<notin> set xs \<Longrightarrow> Split xs sep = [xs]"
  by (induction xs) auto

lemma Split_at_sep: "sep \<notin> set xs \<Longrightarrow> Split (xs @ sep # ys) sep = xs # Split ys sep"
  by (induction xs) auto

lemma Sprintf_d_nonneg: "0 \<le> n \<Longrightarrow> Sprintf_d n = decimal (nat n)"
  by (simp add: Sprintf_d_def)

lemma display_offset_hours:
  assumes "sg = CHR ''+'' \<or> sg = CHR ''-''"
  shows "display_offset (''UTC'' @ [sg] @ decimal H) =
         Some ((if sg = CHR ''-'' then - 1 else 1) * (int H * 3600))"
  using assms decimal_nonempty [of H]
  by (auto simp: display_offset_def Split_no_sep [OF colon_not_digit] read_decimal_decimal)

lemma display_offset_hours_minutes:
  assumes "sg = CHR ''+'' \<or> sg = CHR ''-''"
  shows "display_offset (''UTC'' @ [sg] @ decimal H @ '':'' @ decimal M) =
         Some ((if sg = CHR ''-'' then - 1 else 1) * (int H * 3600 + int M * 60))"
  using assms
  by (auto simp: display_offset_def Split_at_sep [OF colon_not_digit]
      Split_no_sep [OF colon_not_digit] read_decimal_decimal)

lemma split_seconds:
  fixes a :: int
  assumes "0 \<le> a" and "a mod 60 = 0"
  shows "a div 3600 * 3600 + a mod 3600 div 60 * 60 = a"
proof -
  have "a mod 3600 mod 60 = a mod 60"
    by (simp add: mod_mod_cancel)
  with assms have "a mod 3600 div 60 * 60 = a mod 3600"
    by (metis add.right_neutral div_mult_mod_eq)
  then show ?thesis by simp
qed

lemma display_offset_NewTimezoneFromTime:
  assumes "Zone_offset t = 0 \<or> 3600 \<le> \<bar>Zone_offset t\<bar>" and "Zone_offset t mod 60 = 0"
  shows "display_offset (Timezone_String (NewTimezoneFromTime t)) = Some (Zone_offset t)"
proof (cases "Zone_offset t = 0")
  case True
  then show ?thesis
    by (simp add: NewTimezoneFromTime_def Timezone_String_def display_offset_def)
next
  case False
  define a where "a = \<bar>Zone_offset t\<bar>"
  define sg where "sg = (if Zone_offset t < 0 then CHR ''-'' else CHR ''+'')"
  have a: "3600 \<le> a" "a mod 60 = 0" "0 \<le> a"
    using assms False by (auto simp: a_def abs_if)
  have h: "1 \<le> a div 3600"
    using a(1) by (simp add: pos_imp_zdiv_pos_iff)
  have m: "0 \<le> a mod 3600 div 60"
    by (simp add: pos_imp_zdiv_nonneg_iff)
  have sp: "a div 3600 * 3600 + a mod 3600 div 60 * 60 = a"
    using split_seconds a by simp
  have sgn: "(if sg = CHR ''-'' then - 1 else 1) * a = Zone_offset t"
    by (simp add: sg_def a_def)
  have sg2: "sg = CHR ''+'' \<or> sg = CHR ''-''" by (simp add: sg_def)
  have str: "Timezone_String (NewTimezoneFromTime t) =
      (if a mod 3600 div 60 = 0 then ''UTC'' @ [sg] @ decimal (nat (a div 3600))
       else ''UTC'' @ [sg] @ decimal (nat (a div 3600)) @ '':'' @ decimal (nat (a mod 3600 div 60)))"
    using h m
    by (simp add: NewTimezoneFromTime_def Timezone_String_def Let_def Sprintf_d_nonneg
        a_def sg_def abs_if)
  show ?thesis
  proof (cases "a mod 3600 div 60 = 0")
    case True
    with sp h have e: "int (nat (a div 3600)) * 3600 = a" by simp
    from True have "Timezone_String (NewTimezoneFromTime t) =
        ''UTC'' @ [sg] @ decimal (nat (a div 3600))"
      by (simp add: str)
    then have "display_offset (Timezone_String (NewTimezoneFromTime t)) =
        Some ((if sg = CHR ''-'' then - 1 else 1) * (int (nat (a div 3600)) * 3600))"
      by (simp only: display_offset_hours [OF sg2])
    then show ?thesis by (simp only: e sgn)
  next
    case False
    from sp h m have e: "int (nat (a div 3600)) * 3600 + int (nat (a mod 3600 div 60)) * 60 = a"
      by simp
    from False have "Timezone_String (NewTimezoneFromTime t) =
        ''UTC'' @ [sg] @ decimal (nat (a div 3600)) @ '':'' @ decimal (nat (a mod 3600 div 60))"
      by (simp add: str)
    then have "display_offset (Timezone_String (NewTimezoneFromTime t)) =
        Some ((if sg = CHR ''-'' then - 1 else 1) *
              (int (nat (a div 3600)) * 3600 + int (nat (a mod 3600 div 60)) * 60))"
      by (simp only: display_offset_hours_minutes [OF sg2])
    then show ?thesis by (simp only: e sgn)
  qed
qed

lemma Offset_NewTimezoneFromTime: "Offset (NewTimezoneFromTime t) = Zone_offset t"
  by (simp add: NewTimezoneFromTime_def Offset_def Let_def)

text \<open>
  Claim C8, as stated: the offset of every Timezone that a public constructor produces is
  a real-world offset, one the offset validator accepts, and is exactly reconstructible
  from the display string. NewTimezoneFromTime takes the offset of its time as it is: a
  time in a zone 1 hour 15 minutes west gives the offset - 4500 and the display string
  UTC-1:15, which is not among the real-world offsets and which ParseUTCOffset rejects.
  The offsets 1800 and 0 both have the display string UTC.
\<close>

theorem C8_unvalidated_offset_counterexample:
  "Offset (NewTimezoneFromTime (0, FixedZone ''TestZone'' (- 4500))) = - 4500 \<and>
   Timezone_String (NewTimezoneFromTime (0, FixedZone ''TestZone'' (- 4500))) = ''UTC-1:15'' \<and>
   - 4500 \<notin> set real_world_offsets \<and>
   ParseUTCOffset ''UTC-1:15'' = Inl (MinutesNotAllowed 15) \<and>
   Timezone_String (NewTimezoneFromTime (0, FixedZone ''TestZone'' 1800)) = ''UTC'' \<and>
   Offset (NewTimezoneFromTime (0, FixedZone ''TestZone'' 1800)) = 1800 \<and>
   Timezone_String (NewTimezoneFromTime (0, FixedZone ''TestZone'' 0)) = ''UTC'' \<and>
   Offset (NewTimezoneFromTime (0, FixedZone ''TestZone'' 0)) = 0"
  by code_simp

text \<open>
  Claim C8, amended. Every Timezone value that a public constructor produces is
  NewTimezoneFromTime of a time in the zone given (NewTimezone: at the current instant,
  UTC for nil) or resolved (ParseTimezone: by the zone database or by ParseUTCOffset), and
  its offset is the zone offset of that time, unchanged and not validated. Whenever that
  offset is zero, or a whole number of minutes of at least one hour in magnitude, it is
  exactly reconstructible from the display string: UTC reads as 0, and UTC, sign, H and
  (after a colon) M as sign * (H * 3600 + M * 60) seconds.
\<close>

theorem C8_offset_and_display:
  "Offset (NewTimezoneFromTime t) = Zone_offset t \<and>
   NewTimezone now l = NewTimezoneFromTime (now, case l of None \<Rightarrow> UTC | Some x \<Rightarrow> x) \<and>
   (ParseTimezone db now s = Inr tz \<longrightarrow>
      (\<exists>x. tz = NewTimezoneFromTime (now, x) \<and>
           (LoadLocation db s = Some x \<or> ParseUTCOffset s = Inr x))) \<and>
   ((Zone_offset t = 0 \<or> 3600 \<le> \<bar>Zone_offset t\<bar>) \<and> Zone_offset t mod 60 = 0 \<longrightarrow>
      display_offset (Timezone_String (NewTimezoneFromTime t)) = Some (Offset (NewTimezoneFromTime t)))"
proof -
  have "ParseTimezone db now s = Inr tz \<longrightarrow>
      (\<exists>x. tz = NewTimezoneFromTime (now, x) \<and>
           (LoadLocation db s = Some x \<or> ParseUTCOffset s = Inr x))"
    by (auto simp: ParseTimezone_def NewTimezone_def split: if_splits option.splits sum.splits)
  then show ?thesis
    using display_offset_NewTimezoneFromTime [of t]
    by (simp add: Offset_NewTimezoneFromTime NewTimezone_def)
qed

theorem C8_offset_and_display_witness:
  "ParseTimezone no_zones 0 ''UTC+02:00'' = Inr (NewTimezoneFromTime (0, FixedZone ''UTC+02'' 7200)) \<and>
   3600 \<le> \<bar>Zone_offset (0, FixedZone ''TestZone'' (- 12600))\<bar> \<and>
   Zone_offset (0, FixedZone ''TestZone'' (- 12600)) mod 60 = 0 \<and>
   Timezone_String (NewTimezoneFromTime (0, FixedZone ''TestZone'' (- 12600))) = ''UTC-3:30'' \<and>
   display_offset ''UTC-3:30'' = Some (- 12600) \<and>
   Offset (NewTimezoneFromTime (0, FixedZone ''TestZone'' (- 12600))) = - 12600"
proof -
  have 1: "ParseTimezone no_zones 0 ''UTC+02:00'' =
      Inr (NewTimezoneFromTime (0, FixedZone ''UTC+02'' 7200))"
    by code_simp
  have 2: "Timezone_String (NewTimezoneFromTime (0, FixedZone ''TestZone'' (- 12600))) = ''UTC-3:30''"
    by code_simp
  show ?thesis
    using C8_offset_and_display [of "(0, FixedZone ''TestZone'' (- 12600))" 0 None no_zones "''UTC+02:00''"
        "NewTimezoneFromTime (0, FixedZone ''UTC+02'' 7200)"] 1 2
    by simp
qed

end
